theory Spec2Isabelle
  imports Complex_Main "HOL-Library.AList"
begin

section \<open>Python objects: errors, outcomes, object stores\<close>

text \<open>
  The sources are Python classes over the Qt toolkit. Every object the code shares and
  mutates (dictionaries, \<open>QColor\<close> values, pens) lives in a store keyed by its address, so
  that two references to one object see each other's updates. A call either returns or
  raises; in both cases the mutations made so far stay in the store, so an outcome always
  carries the store.
\<close>

type_synonym daddr = nat \<comment> \<open>address of a \<open>dict\<close> object\<close>
type_synonym qaddr = nat \<comment> \<open>address of a \<open>QColor\<close> object\<close>
type_synonym oaddr = nat \<comment> \<open>address of a \<open>NamedPen\<close> object\<close>

datatype error =
    ValueError string
  | TypeError string
  | KeyError string
  | NameError string
  | AttributeError string
  | OverflowError
  | ZeroDivisionError

datatype 's outcome = Returned 's | Raised error 's

fun is_Returned :: "'s outcome \<Rightarrow> bool" where
  "is_Returned (Returned s) = True"
| "is_Returned (Raised e s) = False"

fun state_of :: "'s outcome \<Rightarrow> 's" where
  "state_of (Returned s) = s"
| "state_of (Raised e s) = s"

subsection \<open>The toolkit's color value\<close>

text \<open>
  \<open>QtGui.QColor(r, g, b, a)\<close> is a toolkit class: four integer channels. A toolkit
  method that takes a C \<open>int\<close> raises \<open>OverflowError\<close> for a Python integer outside the
  range of a 32-bit \<open>int\<close> and does nothing else. \<open>QColor.setAlpha\<close> stores the alpha
  channel in place, bounding a value outside 0..255 to that range. \<open>QPen.setWidth\<close>
  ignores a negative width.
\<close>

record qcolor =
  red :: int
  green :: int
  blue :: int
  alpha_channel :: int

definition QColor :: "int \<Rightarrow> int \<Rightarrow> int \<Rightarrow> int \<Rightarrow> qcolor" where
  "QColor r g b a = \<lparr>red = r, green = g, blue = b, alpha_channel = a\<rparr>"

definition c_int :: "int \<Rightarrow> bool" where
  "c_int n = (- 2147483648 \<le> n \<and> n \<le> 2147483647)"

definition QColor_setAlpha :: "int \<Rightarrow> qcolor \<Rightarrow> error + qcolor" where
  "QColor_setAlpha a c =
     (if c_int a then Inr (c\<lparr>alpha_channel := max 0 (min a 255)\<rparr>) else Inl OverflowError)"

text \<open>\<open>QPen.setWidth(width)\<close> on a pen of width \<open>w\<close>: the new width.\<close>

definition QPen_setWidth :: "int \<Rightarrow> int \<Rightarrow> error + int" where
  "QPen_setWidth width w =
     (if c_int width then Inr (if width < 0 then w else width) else Inl OverflowError)"

section \<open>namedColorManager.py\<close>

subsection \<open>\<open>DEFAULT_COLORS\<close> (lines 9-36)\<close>

text \<open>
  The dictionary literal creates thirteen \<open>QColor\<close> objects; here they get the addresses
  0..12 in the order of the literal. A dictionary is kept as an association list in
  insertion order (the order in which Python iterates it); \<open>AList.update\<close> is Python's
  \<open>d[key] = v\<close>: in place for a key already present, appended otherwise.
\<close>

definition DEFAULT_QCOLORS :: "qcolor list" where
  "DEFAULT_QCOLORS =
    [ QColor 0 0 255 255, QColor 0 255 0 255, QColor 255 0 0 255, QColor 0 255 255 255,
      QColor 255 0 255 255, QColor 255 255 0 255, QColor 0 0 0 255, QColor 255 255 255 255,
      QColor 150 150 150 255, QColor 200 200 200 255, QColor 100 100 150 255,
      QColor 200 200 100 255, QColor 0 0 255 50 ]"

definition DEFAULT_COLORS_literal :: "(string \<times> qaddr) list" where
  "DEFAULT_COLORS_literal =
    [ (''b'', 0), (''g'', 1), (''r'', 2), (''c'', 3), (''m'', 4), (''y'', 5), (''k'', 6),
      (''w'', 7), (''d'', 8), (''l'', 9), (''s'', 10), (''gr_acc'', 11), (''gr_reg'', 12) ]"

text \<open>\<open>for key, col in [...]: DEFAULT_COLORS[key] = DEFAULT_COLORS[col]\<close>; a missing
  \<open>col\<close> is Python's \<open>KeyError\<close>.\<close>

fun add_colors :: "(string \<times> string) list \<Rightarrow> (string \<times> qaddr) list \<Rightarrow> error + (string \<times> qaddr) list" where
  "add_colors [] D = Inr D"
| "add_colors ((key, col) # rest) D =
     (case map_of D col of
        None \<Rightarrow> Inl (KeyError col)
      | Some q \<Rightarrow> add_colors rest (AList.update key q D))"

text \<open>\<open>'p{:X}'.format(idx)\<close>: the index in upper-case hexadecimal.\<close>

definition hex_digit :: "nat \<Rightarrow> char" where
  "hex_digit n = ''0123456789ABCDEF'' ! (n mod 16)"

fun format_X :: "nat \<Rightarrow> string" where
  "format_X n = (if n < 16 then [hex_digit n] else format_X (n div 16) @ [hex_digit n])"

definition plot_color_keys :: "string list \<Rightarrow> (string \<times> string) list" where
  "plot_color_keys cols = map (\<lambda>(idx, col). (''p'' @ format_X idx, col)) (enumerate 0 cols)"

definition build_DEFAULT_COLORS :: "error + (string \<times> qaddr) list" where
  "build_DEFAULT_COLORS =
     (case add_colors [ (''gr_fg'', ''d''), (''gr_bg'', ''k''), (''gr_txt'', ''d''), (''gr_hov'', ''r'') ]
             DEFAULT_COLORS_literal of
        Inl e \<Rightarrow> Inl e
      | Inr D \<Rightarrow>
          add_colors
            (plot_color_keys [''l'', ''y'', ''r'', ''m'', ''b'', ''c'', ''g'', ''d'', ''d'', ''d'', ''d'', ''d''])
            D)"

text \<open>The dictionary the module holds once it is loaded; \<open>DEFAULT_COLORS_built\<close> below
  shows that the module-level loops produce exactly this list.\<close>

definition DEFAULT_COLORS :: "(string \<times> qaddr) list" where
  "DEFAULT_COLORS =
    [ (''b'', 0), (''g'', 1), (''r'', 2), (''c'', 3), (''m'', 4), (''y'', 5), (''k'', 6),
      (''w'', 7), (''d'', 8), (''l'', 9), (''s'', 10), (''gr_acc'', 11), (''gr_reg'', 12),
      (''gr_fg'', 8), (''gr_bg'', 6), (''gr_txt'', 8), (''gr_hov'', 2),
      (''p0'', 9), (''p1'', 5), (''p2'', 2), (''p3'', 4), (''p4'', 0), (''p5'', 3),
      (''p6'', 1), (''p7'', 8), (''p8'', 8), (''p9'', 8), (''pA'', 8), (''pB'', 8) ]"

definition DEFAULT_KEYS :: "string list" where
  "DEFAULT_KEYS = map fst DEFAULT_COLORS"

subsection \<open>The program state\<close>

text \<open>
  \<open>pen_identifier\<close> is \<open>NamedPen._identifier\<close>, the pair (name, alpha) with alpha possibly
  \<open>None\<close>; \<open>pen_color\<close> is the color the \<open>QPen\<close> base class holds: \<open>QPen.setColor\<close>
  stores a copy of the \<open>QColor\<close> it is given.
\<close>

record pen =
  pen_identifier :: "string \<times> int option"
  pen_width :: int
  cosmetic :: bool
  pen_color :: qcolor

text \<open>
  What an observer of the manager sees: each call of an object's \<open>paletteChange\<close> (the
  object, the argument it got, and the mapping held at that moment by the dictionary the
  call resolves against) and each emission of \<open>paletteHasChangedSignal\<close>, in order.
\<close>

datatype event =
    PaletteChangeCall oaddr "daddr option" "string \<rightharpoonup> qaddr"
  | PaletteHasChangedSignal

text \<open>
  \<open>color_dic\<close> is \<open>NamedColorManager.color_dic\<close>, a reference to the palette dictionary.
  By the comment at line 54 it is the very object \<open>functions.Colors\<close>, and
  \<open>functions.NAMED_COLOR_MANAGER\<close> is the one manager, so \<open>fn.Colors\<close> in namedPen.py
  reads the same dictionary. \<open>registered_objects\<close> is the \<open>WeakSet\<close>: the set of its
  live members.
\<close>

record state =
  dicts :: "daddr \<Rightarrow> (string \<rightharpoonup> qaddr)"
  qcolors :: "qaddr \<Rightarrow> qcolor"
  pens :: "oaddr \<Rightarrow> pen"
  color_dic :: daddr
  registered_objects :: "oaddr set"
  events :: "event list"

definition palette :: "state \<Rightarrow> (string \<rightharpoonup> qaddr)" where
  "palette s = dicts s (color_dic s)"

subsection \<open>\<open>NamedColorManager\<close>\<close>

text \<open>\<open>__init__\<close> (lines 51-58).\<close>

definition NamedColorManager_init :: "daddr \<Rightarrow> state \<Rightarrow> state" where
  "NamedColorManager_init d s =
     (let s1 = s\<lparr>color_dic := d\<rparr>;
          s2 = s1\<lparr>dicts := (dicts s1)(color_dic s1 := Map.empty)\<rparr>;
          s3 = s2\<lparr>dicts := (dicts s2)(color_dic s2 := dicts s2 (color_dic s2) ++ map_of DEFAULT_COLORS)\<rparr>
      in s3\<lparr>registered_objects := {}\<rparr>)"

definition colors :: "state \<Rightarrow> daddr" where
  "colors s = color_dic s"

definition register :: "oaddr \<Rightarrow> state \<Rightarrow> state" where
  "register obj s = s\<lparr>registered_objects := insert obj (registered_objects s)\<rparr>"

section \<open>namedPen.py\<close>

text \<open>
  \<open>if alpha is not None: qcol.setAlpha(alpha)\<close> (lines 67-68 and 85-86): \<open>qcol\<close> is a
  reference to the object the dictionary holds, and \<open>setAlpha\<close> updates that object, or
  raises and leaves it as it is.
\<close>

definition apply_alpha :: "int option \<Rightarrow> qaddr \<Rightarrow> state \<Rightarrow> error + state" where
  "apply_alpha alpha qcol s =
     (case alpha of
        None \<Rightarrow> Inr s
      | Some a \<Rightarrow>
          (case QColor_setAlpha a (qcolors s qcol) of
             Inl e \<Rightarrow> Inl e
           | Inr c \<Rightarrow> Inr (s\<lparr>qcolors := (qcolors s)(qcol := c)\<rparr>)))"

text \<open>\<open>super().setColor(qcol)\<close>: the pen stores a copy of the color.\<close>

definition QPen_setColor :: "oaddr \<Rightarrow> qaddr \<Rightarrow> state \<Rightarrow> state" where
  "QPen_setColor self qcol s =
     s\<lparr>pens := (pens s)(self := (pens s self)\<lparr>pen_color := qcolors s qcol\<rparr>)\<rparr>"

text \<open>
  \<open>paletteChange\<close> (lines 74-87). The call is entered in \<open>events\<close> first. The lookup
  \<open>color_dict[name]\<close> raises \<open>KeyError\<close> for a missing key; the handler only catches
  \<open>ValueError\<close>, so the \<open>KeyError\<close> reaches the caller.
\<close>

definition paletteChange :: "oaddr \<Rightarrow> daddr option \<Rightarrow> state \<Rightarrow> state outcome" where
  "paletteChange self color_dict s0 =
     (let cd = (case color_dict of None \<Rightarrow> colors s0 | Some d \<Rightarrow> d);
          s = s0\<lparr>events := events s0 @ [PaletteChangeCall self color_dict (dicts s0 cd)]\<rparr>;
          name = fst (pen_identifier (pens s self));
          alpha = snd (pen_identifier (pens s self))
      in (case dicts s cd name of
            None \<Rightarrow> Raised (KeyError name) s
          | Some qcol \<Rightarrow>
              (case apply_alpha alpha qcol s of
                 Inl e \<Rightarrow> Raised e s
               | Inr s1 \<Rightarrow> Returned (QPen_setColor self qcol s1))))"

text \<open>
  \<open>_updateQColor\<close> (lines 58-70). Whatever \<open>color_dict\<close> is, the lookup is
  \<open>fn.Colors[name]\<close>, the palette.
\<close>

definition updateQColor :: "oaddr \<Rightarrow> string \<times> int option \<Rightarrow> daddr option \<Rightarrow> state \<Rightarrow> state outcome" where
  "updateQColor self ident color_dict s =
     (let name = fst ident;
          alpha = snd ident
      in (case dicts s (color_dic s) name of
            None \<Rightarrow> Raised (KeyError name) s
          | Some qcol \<Rightarrow>
              (case apply_alpha alpha qcol s of
                 Inl e \<Rightarrow> Raised e s
               | Inr s1 \<Rightarrow> Returned (QPen_setColor self qcol s1))))"

text \<open>
  \<open>__init__\<close> (lines 11-24), run on the fresh object at address \<open>self\<close>:
  \<open>QPen(Qt.SolidLine)\<close> is a black pen of width 1. When \<open>setWidth\<close> raises, the object
  has no identifier yet and nothing of the state has been touched; when \<open>_updateQColor\<close>
  raises, \<open>register\<close> is not reached.
\<close>

definition NamedPen_init :: "oaddr \<Rightarrow> string \<Rightarrow> int \<Rightarrow> int option \<Rightarrow> state \<Rightarrow> state outcome" where
  "NamedPen_init self name width alpha s =
     (case QPen_setWidth width 1 of
        Inl e \<Rightarrow> Raised e s
      | Inr w \<Rightarrow>
          (let s1 = s\<lparr>pens := (pens s)(self :=
                       \<lparr>pen_identifier = (name, alpha), pen_width = w, cosmetic = True,
                        pen_color = QColor 0 0 0 255\<rparr>)\<rparr>
           in (case updateQColor self (pen_identifier (pens s1 self)) None s1 of
                 Raised e s2 \<Rightarrow> Raised e s2
               | Returned s2 \<Rightarrow> Returned (register self s2))))"

text \<open>
  \<open>setColor\<close> (lines 39-51). Its \<open>name\<close> argument is \<open>None\<close>, a \<open>QColor\<close> or a
  color name.
\<close>

datatype color_arg = NoName | AQColor qaddr | AName string

definition setColor :: "oaddr \<Rightarrow> color_arg \<Rightarrow> int option \<Rightarrow> state \<Rightarrow> state outcome" where
  "setColor self name alpha s =
     (let old = fst (pen_identifier (pens s self));
          ident = (case name of
                     NoName \<Rightarrow> (old, alpha)
                   | AQColor q \<Rightarrow>
                       (old, (case alpha of None \<Rightarrow> Some (alpha_channel (qcolors s q)) | Some a \<Rightarrow> Some a))
                   | AName n \<Rightarrow> (n, alpha));
          s1 = s\<lparr>pens := (pens s)(self := (pens s self)\<lparr>pen_identifier := ident\<rparr>)\<rparr>
      in updateQColor self (pen_identifier (pens s1 self)) None s1)"

text \<open>\<open>NamedPen.setAlpha\<close> (lines 53-56).\<close>

definition setAlpha :: "oaddr \<Rightarrow> int option \<Rightarrow> state \<Rightarrow> state outcome" where
  "setAlpha self alpha s =
     (let s1 = s\<lparr>pens := (pens s)(self :=
                  (pens s self)\<lparr>pen_identifier := (fst (pen_identifier (pens s self)), alpha)\<rparr>)\<rparr>
      in updateQColor self (pen_identifier (pens s1 self)) None s1)"

text \<open>
  What a pen would show if its identifier were resolved when its color is read: the
  palette's current object for the name (this is the spec's wording, "resolves it against
  the shared palette lazily", kept apart from the code's \<open>pen_color\<close>).
\<close>

definition lazy_color :: "state \<Rightarrow> oaddr \<Rightarrow> qcolor option" where
  "lazy_color s p = map_option (qcolors s) (palette s (fst (pen_identifier (pens s p))))"

text \<open>
  What the code does instead, in one predicate: the color stored in the pen \<open>self\<close> in
  the state \<open>s'\<close> is a copy of the color that, in the state \<open>s\<close>, the dictionary \<open>d\<close>
  holds under the pen's name, with the pen's alpha (an integer in the range of a C
  \<open>int\<close>, bounded to 0..255) in place of its alpha channel when the pen has an alpha.
\<close>

definition stored_resolution :: "state \<Rightarrow> daddr \<Rightarrow> state \<Rightarrow> oaddr \<Rightarrow> bool" where
  "stored_resolution s d s' self =
     (case dicts s d (fst (pen_identifier (pens s' self))) of
        None \<Rightarrow> False
      | Some q \<Rightarrow>
          (case snd (pen_identifier (pens s' self)) of
             None \<Rightarrow> pen_color (pens s' self) = qcolors s q
           | Some a \<Rightarrow>
               c_int a \<and>
               pen_color (pens s' self) = (qcolors s q)\<lparr>alpha_channel := max 0 (min a 255)\<rparr>))"

section \<open>\<open>NamedColorManager.redefinePalette\<close> (lines 68-85)\<close>

text \<open>The loop \<open>for key in DEFAULT_COLORS: if key not in color_dic: raise\<close>: the first
  key that is missing, if any.\<close>

fun missing_key :: "string list \<Rightarrow> (string \<rightharpoonup> qaddr) \<Rightarrow> string option" where
  "missing_key [] cd = None"
| "missing_key (key # keys) cd =
     (if cd key = None then Some key else missing_key keys cd)"

definition not_iterable_message :: string where
  "not_iterable_message = [CHR 0x27] @ ''NoneType'' @ [CHR 0x27] @ '' object is not iterable''"

definition missing_message :: "string \<Rightarrow> string" where
  "missing_message key = ''Palette definition is missing '' @ [CHR 0x27] @ key @ [CHR 0x27]"

text \<open>The loop \<open>for obj in self.registered_objects: obj.paletteChange(self.color_dic)\<close>
  over the objects in the order given; an exception of a callback ends it.\<close>

fun notify :: "oaddr list \<Rightarrow> state \<Rightarrow> state outcome" where
  "notify [] s = Returned s"
| "notify (obj # objs) s =
     (case paletteChange obj (Some (color_dic s)) s of
        Raised e s' \<Rightarrow> Raised e s'
      | Returned s' \<Rightarrow> notify objs s')"

text \<open>
  The argument is \<open>None\<close> or a reference to a dictionary (possibly the palette itself,
  which \<open>colors()\<close> hands out). \<open>update\<close> reads the argument after \<open>clear\<close> has run.
  \<open>dict.update(None)\<close> raises \<open>TypeError\<close>. The \<open>print\<close> under \<open>DEBUG\<close> writes to
  the console only and is left out. Python iterates a \<open>WeakSet\<close> in the order of its
  hash table, which follows the objects' \<open>id\<close>s and not the registrations: \<open>iter\<close> is
  that order, a parameter.
\<close>

definition redefinePalette :: "(oaddr set \<Rightarrow> oaddr list) \<Rightarrow> daddr option \<Rightarrow> state \<Rightarrow> state outcome" where
  "redefinePalette iter color_dic_arg s =
     (case (case color_dic_arg of
              None \<Rightarrow> None
            | Some d \<Rightarrow> missing_key DEFAULT_KEYS (dicts s d)) of
        Some key \<Rightarrow> Raised (ValueError (missing_message key)) s
      | None \<Rightarrow>
          (let s1 = s\<lparr>dicts := (dicts s)(color_dic s := Map.empty)\<rparr>
           in (case color_dic_arg of
                 None \<Rightarrow> Raised (TypeError not_iterable_message) s1
               | Some d \<Rightarrow>
                   (let s2 = s1\<lparr>dicts := (dicts s1)(color_dic s1 := dicts s1 (color_dic s1) ++ dicts s1 d)\<rparr>
                    in (case notify (iter (registered_objects s2)) s2 of
                          Raised e s3 \<Rightarrow> Raised e s3
                        | Returned s3 \<Rightarrow>
                            Returned (s3\<lparr>events := events s3 @ [PaletteHasChangedSignal]\<rparr>))))))"

section \<open>graphicsItems/TargetItem.py\<close>

text \<open>
  The Python values an argument can be, as far as the type tests of \<open>setPos\<close> and
  \<open>TargetLabel.__init__\<close> tell them apart. Numbers are compared by value, as Python
  compares an \<open>int\<close> with a \<open>float\<close>.
\<close>

datatype pyobj =
    PyNone
  | PyNum real
  | PyStr string
  | PyTuple "pyobj list"
  | PyList "pyobj list"
  | QPointF real real
  | QPoint int int
  | PyCallable nat
  | PyObject nat

datatype signal = sigPositionChanged | sigPositionChangeFinished

text \<open>
  \<open>target_pos\<close> holds the items of the tuple \<open>self._pos\<close> (the attribute is a tuple at
  every moment: \<open>__init__\<close> sets \<open>(0, 0)\<close> and \<open>setPos\<close> only stores tuples);
  \<open>item_pos\<close> is the position the \<open>QGraphicsItem\<close> base holds; \<open>emitted\<close> lists the
  signals emitted so far.
\<close>

record target_item =
  target_pos :: "pyobj list"
  item_pos :: "real \<times> real"
  emitted :: "signal list"

text \<open>The \<open>isinstance\<close> chain of \<open>setPos\<close> (lines 124-131): the new tuple, or
  \<open>TypeError\<close>.\<close>

fun newPos :: "pyobj \<Rightarrow> error + pyobj list" where
  "newPos (PyTuple items) = Inr items"
| "newPos (PyList items) = Inr items"
| "newPos (QPointF x y) = Inr [PyNum x, PyNum y]"
| "newPos (QPoint x y) = Inr [PyNum (of_int x), PyNum (of_int y)]"
| "newPos other = Inl (TypeError [])"

text \<open>
  \<open>setPos\<close> (lines 123-135). \<open>Point\<close> is the constructor of Point.py, which is not
  among the sources: it is a parameter, giving the coordinates or the error it raises.
\<close>

definition setPos :: "(pyobj list \<Rightarrow> error + real \<times> real) \<Rightarrow> pyobj \<Rightarrow> target_item \<Rightarrow> target_item outcome" where
  "setPos Point pos self =
     (case newPos pos of
        Inl e \<Rightarrow> Raised e self
      | Inr new \<Rightarrow>
          if target_pos self \<noteq> new then
            (let s1 = self\<lparr>target_pos := new\<rparr>
             in (case Point (target_pos s1) of
                   Inl e \<Rightarrow> Raised e s1
                 | Inr pt \<Rightarrow> Returned (s1\<lparr>item_pos := pt, emitted := emitted s1 @ [sigPositionChanged]\<rparr>)))
          else Returned self)"

text \<open>"\<open>pos\<close> is a tuple, a list, a \<open>QPointF\<close> or a \<open>QPoint\<close>".\<close>

fun position_like :: "pyobj \<Rightarrow> bool" where
  "position_like (PyTuple items) = True"
| "position_like (PyList items) = True"
| "position_like (QPointF x y) = True"
| "position_like (QPoint x y) = True"
| "position_like other = False"

definition position :: "target_item \<Rightarrow> pyobj list" where
  "position self = target_pos self"

text \<open>
  \<open>TargetLabel\<close> (lines 289-345). \<open>label_format\<close> is \<open>self.format\<close>; \<open>label_parent\<close>
  and \<open>label_target\<close> refer to the target item; \<open>connected\<close> says whether
  \<open>valueChanged\<close> is connected to the target's \<open>sigPositionChanged\<close>.
\<close>

record target_label =
  label_anchor :: pyobj
  label_angle :: pyobj
  label_parent :: "nat option"
  label_target :: "nat option"
  label_format :: pyobj
  label_pos :: "real \<times> real"
  label_text :: string
  connected :: bool

text \<open>
  \<open>valueChanged\<close> (lines 340-345). \<open>x, y = self.target.position()\<close> needs a tuple of
  two items; \<open>unpack_error\<close> is what Python raises for a tuple of another length. String
  formatting and the call of a callable belong to Python and to the caller:
  \<open>str_format\<close> and \<open>call\<close> are parameters.
\<close>

definition unpack_error :: "nat \<Rightarrow> error" where
  "unpack_error n =
     (if n = 0 then ValueError ''not enough values to unpack (expected 2, got 0)''
      else if n = 1 then ValueError ''not enough values to unpack (expected 2, got 1)''
      else ValueError ''too many values to unpack (expected 2)'')"

definition valueChanged ::
  "(string \<Rightarrow> pyobj \<Rightarrow> pyobj \<Rightarrow> error + string) \<Rightarrow> (nat \<Rightarrow> pyobj \<Rightarrow> pyobj \<Rightarrow> error + string) \<Rightarrow>
   pyobj list \<Rightarrow> target_label \<Rightarrow> target_label outcome" where
  "valueChanged str_format call target_position self =
     (case target_position of
        [x, y] \<Rightarrow>
          (case label_format self of
             PyStr f \<Rightarrow>
               (case str_format f x y of
                  Inl e \<Rightarrow> Raised e self
                | Inr t \<Rightarrow> Returned (self\<lparr>label_text := t\<rparr>))
           | PyCallable c \<Rightarrow>
               (case call c x y of
                  Inl e \<Rightarrow> Raised e self
                | Inr t \<Rightarrow> Returned (self\<lparr>label_text := t\<rparr>))
           | _ \<Rightarrow> Returned self)
      | _ \<Rightarrow> Raised (unpack_error (length target_position)) self)"

text \<open>The \<open>isinstance\<close> chain of \<open>TargetLabel.__init__\<close> (lines 331-336): the arguments
  handed to the toolkit's \<open>setPos\<close>, or \<open>TypeError\<close>.\<close>

fun offset_args :: "pyobj \<Rightarrow> error + pyobj list" where
  "offset_args (PyTuple items) = Inr items"
| "offset_args (PyList items) = Inr items"
| "offset_args (QPoint x y) = Inr [QPoint x y]"
| "offset_args (QPointF x y) = Inr [QPointF x y]"
| "offset_args other = Inl (TypeError ''Offset parameter is the wrong data type'')"

text \<open>
  \<open>TargetLabel.__init__\<close> (lines 318-338), run on the label \<open>self\<close> as
  \<open>TextItem.__init__\<close> leaves it. \<open>item_setPos\<close> is the toolkit's
  \<open>QGraphicsItem.setPos\<close> applied to the given arguments: the position, or the error it
  raises. \<open>target\<close> is the target item's address and \<open>target_position\<close> its
  \<open>position()\<close>.
\<close>

definition TargetLabel_init ::
  "(pyobj list \<Rightarrow> error + real \<times> real) \<Rightarrow>
   (string \<Rightarrow> pyobj \<Rightarrow> pyobj \<Rightarrow> error + string) \<Rightarrow> (nat \<Rightarrow> pyobj \<Rightarrow> pyobj \<Rightarrow> error + string) \<Rightarrow>
   nat \<Rightarrow> pyobj list \<Rightarrow> pyobj \<Rightarrow> pyobj \<Rightarrow> pyobj \<Rightarrow> pyobj \<Rightarrow> target_label \<Rightarrow> target_label outcome" where
  "TargetLabel_init item_setPos str_format call target target_position txt offset anchor angle self =
     (let s1 = self\<lparr>label_anchor := anchor, label_angle := angle, label_parent := Some target,
                     label_target := Some target, label_format := txt\<rparr>
      in (case offset_args offset of
            Inl e \<Rightarrow> Raised e s1
          | Inr args \<Rightarrow>
              (case item_setPos args of
                 Inl e \<Rightarrow> Raised e s1
               | Inr p \<Rightarrow>
                   valueChanged str_format call target_position (s1\<lparr>label_pos := p, connected := True\<rparr>))))"

section \<open>widgets/PathButton.py\<close>

text \<open>
  The names the module has bound when its \<open>class\<close> statement runs (line 7): the imports
  of lines 1-2 and \<open>__all__\<close> of line 4. A name that is neither bound there nor a
  builtin raises \<open>NameError\<close>; \<open>QtWidgets\<close> is no builtin.
\<close>

definition PathButton_globals :: "string list" where
  "PathButton_globals = [''fn'', ''QtCore'', ''QtGui'', ''__all__'']"

definition load_global :: "string list \<Rightarrow> string \<Rightarrow> error + string" where
  "load_global globals name = (if name \<in> set globals then Inr name else Inl (NameError name))"

text \<open>The \<open>class\<close> statement evaluates its base \<open>QtWidgets.QPushButton\<close> first.\<close>

definition PathButton_class :: "error + string" where
  "PathButton_class = load_global PathButton_globals ''QtWidgets''"

record rectf =
  rect_x :: real
  rect_y :: real
  rect_width :: real
  rect_height :: real

definition adjusted :: "rectf \<Rightarrow> real \<Rightarrow> real \<Rightarrow> real \<Rightarrow> real \<Rightarrow> rectf" where
  "adjusted r dx1 dy1 dx2 dy2 =
     \<lparr>rect_x = rect_x r + dx1, rect_y = rect_y r + dy1,
      rect_width = rect_width r + dx2 - dx1, rect_height = rect_height r + dy2 - dy1\<rparr>"

definition center :: "rectf \<Rightarrow> real \<times> real" where
  "center r = (rect_x r + rect_width r / 2, rect_y r + rect_height r / 2)"

text \<open>
  The button. A path is known by its bounding rectangle (\<open>QPainterPath.boundingRect\<close>);
  \<open>button_pen\<close> and \<open>button_brush\<close> hold what \<open>fn.mkPen\<close> and \<open>fn.mkBrush\<close> were
  given.
\<close>

record path_button =
  margin :: real
  button_path :: "rectf option"
  button_pen :: pyobj
  button_brush :: pyobj
  fixed_size :: "(real \<times> real) option"

text \<open>\<open>PathButton(...)\<close>: creating the object needs the class, then \<open>__init__\<close>
  (lines 10-22) runs.\<close>

definition PathButton_init ::
  "rectf option \<Rightarrow> pyobj \<Rightarrow> pyobj \<Rightarrow> (real \<times> real) option \<Rightarrow> real \<Rightarrow> error + path_button" where
  "PathButton_init path pen brush sz mrg =
     (case PathButton_class of
        Inl e \<Rightarrow> Inl e
      | Inr cls \<Rightarrow>
          Inr \<lparr>margin = mrg, button_path = path,
               button_pen = (if pen = PyStr ''default'' then PyStr ''k'' else pen),
               button_brush = brush, fixed_size = sz\<rparr>)"

text \<open>
  \<open>paintEvent\<close> (lines 34-49), for a button of the given width and height: the
  painter calls it makes, or the error it raises. \<open>a / float(b)\<close> raises
  \<open>ZeroDivisionError\<close> when \<open>b\<close> is zero; otherwise the quotient is taken over the
  reals.
\<close>

datatype paint_op =
    SetRenderHint
  | Translate real real
  | Scale real real
  | SetPen pyobj
  | SetBrush pyobj
  | DrawPath rectf
  | EndPainter

definition paintEvent :: "real \<Rightarrow> real \<Rightarrow> path_button \<Rightarrow> error + paint_op list" where
  "paintEvent width height self =
     (let geom = adjusted \<lparr>rect_x = 0, rect_y = 0, rect_width = width, rect_height = height\<rparr>
                   (margin self) (margin self) (- margin self) (- margin self)
      in (case button_path self of
            None \<Rightarrow> Inl (AttributeError ''boundingRect'')
          | Some rect \<Rightarrow>
              if rect_width rect = 0 \<or> rect_height rect = 0 then Inl ZeroDivisionError
              else
                (let scale = min (rect_width geom / rect_width rect) (rect_height geom / rect_height rect)
                 in Inr [ SetRenderHint,
                          Translate (fst (center geom)) (snd (center geom)),
                          Scale scale scale,
                          Translate (- fst (center rect)) (- snd (center rect)),
                          SetPen (button_pen self),
                          SetBrush (button_brush self),
                          DrawPath rect,
                          EndPainter ])))"

section \<open>Example states\<close>

text \<open>
  \<open>loaded\<close>: the state once the modules are loaded and functions.py has created the
  manager on the dictionary at address 0: the palette holds \<open>DEFAULT_COLORS\<close>, whose
  \<open>QColor\<close> objects sit at the addresses 0..12, and nothing is registered.
\<close>

definition blank_pen :: pen where
  "blank_pen = \<lparr>pen_identifier = ([], None), pen_width = 1, cosmetic = False,
                 pen_color = QColor 0 0 0 255\<rparr>"

definition loaded :: state where
  "loaded = NamedColorManager_init 0
     \<lparr>dicts = (\<lambda>d. Map.empty),
      qcolors = (\<lambda>q. if q < length DEFAULT_QCOLORS then DEFAULT_QCOLORS ! q else QColor 0 0 0 255),
      pens = (\<lambda>p. blank_pen),
      color_dic = 0,
      registered_objects = {},
      events = []\<rparr>"

text \<open>A caller's dictionary at address 1: the default palette without the key \<open>w\<close>.\<close>

definition without_w :: state where
  "without_w = loaded\<lparr>dicts := (dicts loaded)(1 := (map_of DEFAULT_COLORS)(''w'' := None))\<rparr>"

text \<open>A caller's dictionary at address 1 that maps every default key to the gray object
  (address 8), and a custom key \<open>x\<close> in the palette that the new dictionary lacks.\<close>

definition all_gray :: "string \<rightharpoonup> qaddr" where
  "all_gray = map_of (map (\<lambda>key. (key, 8)) DEFAULT_KEYS)"

definition themed :: state where
  "themed = loaded\<lparr>dicts := (dicts loaded)(0 := (map_of DEFAULT_COLORS)(''x'' \<mapsto> 3), 1 := all_gray)\<rparr>"

text \<open>Two pens on the name \<open>b\<close>: the first without opacity, the second, created later,
  with opacity 50.\<close>

definition one_pen :: state where
  "one_pen = state_of (NamedPen_init 0 ''b'' 1 None loaded)"

definition two_pens :: state where
  "two_pens = state_of (NamedPen_init 1 ''b'' 1 (Some 50) one_pen)"

text \<open>The first pen, and a second pen on \<open>b\<close> with opacity 50 at the moment its
  \<open>__init__\<close> calls \<open>_updateQColor\<close>.\<close>

definition second_pen_created :: state where
  "second_pen_created = one_pen\<lparr>pens := (pens one_pen)(1 :=
     \<lparr>pen_identifier = (''b'', Some 50), pen_width = 1, cosmetic = True,
      pen_color = QColor 0 0 0 255\<rparr>)\<rparr>"

text \<open>The same, and a caller's all-gray dictionary at address 1.\<close>

definition second_pen_gray :: state where
  "second_pen_gray = second_pen_created\<lparr>dicts := (dicts second_pen_created)(1 := all_gray)\<rparr>"

text \<open>The first pen after \<open>setColor('purple')\<close>, a name the palette does not have.\<close>

definition purple_pen :: state where
  "purple_pen = state_of (setColor 0 (AName ''purple'') None one_pen)"

text \<open>The pen named \<open>purple\<close>, and a caller's dictionary at address 1 that maps
  \<open>purple\<close> to the cyan object (address 3).\<close>

definition foreign :: state where
  "foreign = purple_pen\<lparr>dicts := (dicts purple_pen)(1 := [''purple'' \<mapsto> 3])\<rparr>"

text \<open>The first pen after \<open>setAlpha(2147483648)\<close>, one more than a C \<open>int\<close> holds.\<close>

definition overflowing :: state where
  "overflowing = state_of (setAlpha 0 (Some 2147483648) one_pen)"

text \<open>An iteration order: by descending address (the reverse of the registrations in
  the examples).\<close>

definition descending :: "oaddr set \<Rightarrow> oaddr list" where
  "descending S = rev (sorted_list_of_set S)"

text \<open>The two pens, and a caller's all-gray dictionary at address 1.\<close>

definition two_pens_gray :: state where
  "two_pens_gray = two_pens\<lparr>dicts := (dicts two_pens)(1 := all_gray)\<rparr>"

text \<open>A target item at the origin and a label as \<open>TextItem.__init__\<close> leaves it.\<close>

definition origin_item :: target_item where
  "origin_item = \<lparr>target_pos = [PyNum 0, PyNum 0], item_pos = (0, 0), emitted = []\<rparr>"

definition fresh_label :: target_label where
  "fresh_label = \<lparr>label_anchor = PyNone, label_angle = PyNone, label_parent = None,
                   label_target = None, label_format = PyNone, label_pos = (0, 0),
                   label_text = [], connected = False\<rparr>"

text \<open>Stand-ins for the parameters: a constructor and a \<open>setPos\<close> that accept two
  numbers, a formatting that returns the format string, a callable that returns the empty
  string.\<close>

definition sample_Point :: "pyobj list \<Rightarrow> error + real \<times> real" where
  "sample_Point items =
     (case items of [PyNum x, PyNum y] \<Rightarrow> Inr (x, y) | _ \<Rightarrow> Inl (TypeError []))"

definition sample_format :: "string \<Rightarrow> pyobj \<Rightarrow> pyobj \<Rightarrow> error + string" where
  "sample_format f x y = Inr f"

definition sample_call :: "nat \<Rightarrow> pyobj \<Rightarrow> pyobj \<Rightarrow> error + string" where
  "sample_call c x y = Inr []"

section \<open>Properties\<close>

subsection \<open>The module-level dictionary\<close>

lemma DEFAULT_COLORS_built: "build_DEFAULT_COLORS = Inr DEFAULT_COLORS"
  by (simp add: build_DEFAULT_COLORS_def DEFAULT_COLORS_def DEFAULT_COLORS_literal_def
        plot_color_keys_def enumerate_eq_zip hex_digit_def upt_rec)

subsection \<open>The loops of \<open>redefinePalette\<close>\<close>

lemma Returned_state_of: "is_Returned r \<Longrightarrow> r = Returned (state_of r)"
  by (cases r) simp_all

lemma missing_key_Some:
  "missing_key keys cd = Some key \<Longrightarrow> key \<in> set keys \<and> cd key = None"
  by (induction keys) (auto split: if_splits)

lemma missing_key_None:
  "(missing_key keys cd = None) = (\<forall>key \<in> set keys. cd key \<noteq> None)"
  by (induction keys) auto

lemma missing_key_exists:
  assumes "\<exists>key \<in> set keys. cd key = None"
  shows "\<exists>key. missing_key keys cd = Some key"
proof (cases "missing_key keys cd")
  case None
  with assms show ?thesis by (auto simp: missing_key_None)
next
  case (Some key)
  then show ?thesis by blast
qed

lemma apply_alpha_frame:
  assumes "apply_alpha alpha qcol s = Inr s1"
  shows "dicts s1 = dicts s" and "color_dic s1 = color_dic s"
    and "registered_objects s1 = registered_objects s" and "events s1 = events s"
    and "pens s1 = pens s"
  using assms
  by (auto simp: apply_alpha_def split: option.splits sum.splits)

lemma paletteChange_frame:
  assumes "paletteChange obj cd s = Returned s'"
  shows "dicts s' = dicts s" and "color_dic s' = color_dic s"
    and "registered_objects s' = registered_objects s"
    and "events s' = events s
           @ [PaletteChangeCall obj cd (dicts s (case cd of None \<Rightarrow> color_dic s | Some d \<Rightarrow> d))]"
  using assms
  by (auto simp: paletteChange_def QPen_setColor_def colors_def Let_def
        dest: apply_alpha_frame split: option.splits sum.splits)

lemma notify_frame:
  assumes "notify objs s = Returned s'"
  shows "dicts s' = dicts s \<and> color_dic s' = color_dic s \<and>
         registered_objects s' = registered_objects s \<and>
         events s' = events s
           @ map (\<lambda>obj. PaletteChangeCall obj (Some (color_dic s)) (palette s)) objs"
  using assms
proof (induction objs arbitrary: s)
  case Nil
  then show ?case by simp
next
  case (Cons obj objs)
  from Cons.prems obtain s1 where
    step: "paletteChange obj (Some (color_dic s)) s = Returned s1" and
    rest: "notify objs s1 = Returned s'"
    by (auto split: outcome.splits)
  from Cons.IH [OF rest] paletteChange_frame [OF step]
  show ?case by (simp add: palette_def)
qed

lemma redefinePalette_Returned:
  assumes "redefinePalette iter arg s = Returned s'"
  obtains d s3 where "arg = Some d" and "missing_key DEFAULT_KEYS (dicts s d) = None"
    and "notify (iter (registered_objects s))
           (s\<lparr>dicts := (dicts s)(color_dic s := ((dicts s)(color_dic s := Map.empty)) d)\<rparr>) = Returned s3"
    and "s' = s3\<lparr>events := events s3 @ [PaletteHasChangedSignal]\<rparr>"
  using assms
  by (auto simp: redefinePalette_def Let_def split: option.splits outcome.splits)

subsection \<open>A palette definition that misses a key\<close>

text \<open>
  C1. Whenever the dictionary handed to \<open>redefinePalette\<close> lacks a key of
  \<open>DEFAULT_COLORS\<close>, the call raises \<open>ValueError\<close> with the message "Palette definition
  is missing '<key>'" for a key that is indeed a default key missing from the dictionary.
  The state it leaves is the state it was called in: the palette and every other
  dictionary are unchanged, and \<open>events\<close> is unchanged, so no \<open>paletteChange\<close> callback
  has run and no signal was emitted.
\<close>

theorem redefinePalette_missing_key:
  assumes "\<exists>key \<in> set DEFAULT_KEYS. dicts s d key = None"
  shows "\<exists>key. key \<in> set DEFAULT_KEYS \<and> dicts s d key = None \<and>
           redefinePalette iter (Some d) s = Raised (ValueError (missing_message key)) s"
proof -
  from missing_key_exists [OF assms] obtain key
    where key: "missing_key DEFAULT_KEYS (dicts s d) = Some key" ..
  from missing_key_Some [OF key] have "key \<in> set DEFAULT_KEYS" and "dicts s d key = None"
    by simp_all
  moreover from key
  have "redefinePalette iter (Some d) s = Raised (ValueError (missing_message key)) s"
    by (simp add: redefinePalette_def)
  ultimately show ?thesis by blast
qed

lemma without_w_keys:
  "key \<in> set DEFAULT_KEYS \<Longrightarrow> dicts without_w 1 key = None \<Longrightarrow> key = ''w''"
  by (auto simp: without_w_def DEFAULT_KEYS_def DEFAULT_COLORS_def split: if_splits)

text \<open>The default palette without \<open>w\<close> is refused, naming \<open>w\<close>.\<close>

theorem redefinePalette_missing_key_witness:
  "redefinePalette descending (Some 1) without_w
     = Raised (ValueError (missing_message ''w'')) without_w"
proof -
  have "''w'' \<in> set DEFAULT_KEYS"
    by (simp add: DEFAULT_KEYS_def DEFAULT_COLORS_def)
  moreover have "dicts without_w 1 ''w'' = None"
    by (simp add: without_w_def)
  ultimately have "\<exists>key \<in> set DEFAULT_KEYS. dicts without_w 1 key = None" ..
  from redefinePalette_missing_key [OF this, of descending] obtain key where
    "key \<in> set DEFAULT_KEYS" and "dicts without_w 1 key = None" and
    r: "redefinePalette descending (Some 1) without_w
          = Raised (ValueError (missing_message key)) without_w"
    by blast
  then have "key = ''w''" by (simp add: without_w_keys)
  with r show ?thesis by simp
qed

subsection \<open>\<open>redefinePalette(None)\<close>\<close>

text \<open>
  C9. \<open>redefinePalette(None)\<close> skips the check of the keys, clears the palette and then
  raises \<open>TypeError\<close> from \<open>dict.update(None)\<close>. The state it leaves differs from the
  state it was called in exactly by the emptied palette: the palette has no key, no
  callback ran and no signal was emitted (\<open>events\<close> is unchanged), and from then on every
  color name fails to resolve.
\<close>

theorem redefinePalette_None_not_atomic:
  "redefinePalette iter None s =
     Raised (TypeError not_iterable_message) (s\<lparr>dicts := (dicts s)(color_dic s := Map.empty)\<rparr>)
   \<and> palette (state_of (redefinePalette iter None s)) = Map.empty
   \<and> events (state_of (redefinePalette iter None s)) = events s
   \<and> updateQColor p (name, alpha) cd (state_of (redefinePalette iter None s)) =
       Raised (KeyError name) (state_of (redefinePalette iter None s))"
  by (simp add: redefinePalette_def palette_def updateQColor_def)

text \<open>On the loaded state: the color \<open>b\<close> was defined and is gone afterwards.\<close>

theorem redefinePalette_None_witness:
  "palette loaded ''b'' = Some 0
   \<and> palette (state_of (redefinePalette descending None loaded)) = Map.empty
   \<and> events (state_of (redefinePalette descending None loaded)) = events loaded
   \<and> updateQColor 0 (''b'', None) None (state_of (redefinePalette descending None loaded)) =
       Raised (KeyError ''b'') (state_of (redefinePalette descending None loaded))"
proof -
  have "palette loaded ''b'' = Some 0"
    by (simp add: palette_def loaded_def NamedColorManager_init_def DEFAULT_COLORS_def)
  with redefinePalette_None_not_atomic [of descending loaded 0 "''b''" None None]
  show ?thesis by blast
qed

subsection \<open>A complete palette definition\<close>

lemma loaded_simps:
  "color_dic loaded = 0" "dicts loaded 0 = map_of DEFAULT_COLORS"
  "registered_objects loaded = {}" "events loaded = []"
  by (simp_all add: loaded_def NamedColorManager_init_def)

lemma descending_simps:
  "descending {} = []" "descending {0} = [0]" "descending {0, Suc 0} = [Suc 0, 0]"
  "descending {Suc 0, 0} = [Suc 0, 0]"
  by (simp_all add: descending_def insert_commute)

lemma themed_simps:
  "color_dic themed = 0" "dicts themed (Suc 0) = all_gray"
  "dicts themed 0 = (map_of DEFAULT_COLORS)(''x'' \<mapsto> 3)"
  "registered_objects themed = {}"
  by (simp_all add: themed_def loaded_simps)

lemma all_gray_keys: "missing_key DEFAULT_KEYS all_gray = None"
  by (simp add: all_gray_def DEFAULT_KEYS_def DEFAULT_COLORS_def)

text \<open>
  C3. Handing \<open>redefinePalette\<close> the palette itself, the object \<open>colors()\<close> returns:
  the dictionary has every default key and maps \<open>b\<close>, the call returns, and the palette
  is left empty. \<open>clear()\<close> has emptied the argument before \<open>update()\<close> read it.
\<close>

theorem redefinePalette_own_palette_emptied:
  "missing_key DEFAULT_KEYS (dicts loaded (colors loaded)) = None
   \<and> dicts loaded (colors loaded) ''b'' = Some 0
   \<and> is_Returned (redefinePalette descending (Some (colors loaded)) loaded)
   \<and> palette (state_of (redefinePalette descending (Some (colors loaded)) loaded)) = Map.empty"
  by (simp add: loaded_simps descending_simps colors_def redefinePalette_def palette_def
        DEFAULT_KEYS_def DEFAULT_COLORS_def)

text \<open>
  For a dictionary that is another object than the palette, the palette ends up with
  exactly the mapping the dictionary had when the call was made.
\<close>

lemma redefinePalette_replaces:
  assumes "redefinePalette iter (Some d) s = Returned s'" and "d \<noteq> color_dic s"
  shows "color_dic s' = color_dic s \<and> palette s' = dicts s d
         \<and> (\<forall>key \<in> set DEFAULT_KEYS. key \<in> dom (palette s'))"
proof -
  from assms(1) obtain s3 where
    keys: "missing_key DEFAULT_KEYS (dicts s d) = None" and
    n: "notify (iter (registered_objects s))
          (s\<lparr>dicts := (dicts s)(color_dic s := ((dicts s)(color_dic s := Map.empty)) d)\<rparr>) = Returned s3" and
    s': "s' = s3\<lparr>events := events s3 @ [PaletteHasChangedSignal]\<rparr>"
    by (auto elim: redefinePalette_Returned)
  from notify_frame [OF n] assms(2) s'
  have "color_dic s' = color_dic s" and "palette s' = dicts s d"
    by (simp_all add: palette_def)
  with keys show ?thesis by (auto simp: missing_key_None)
qed

subsection \<open>Notification of the registered objects\<close>

lemma count_calls:
  "count_list (map (\<lambda>obj. PaletteChangeCall obj cd m) objs) (PaletteChangeCall obj cd m)
     = count_list objs obj"
  by (induction objs) auto

lemma count_list_distinct: "distinct xs \<Longrightarrow> x \<in> set xs \<Longrightarrow> count_list xs x = 1"
  by (induction xs) auto

text \<open>
  C4. Let \<open>redefinePalette\<close> return, and let the loop visit the registered objects each
  once (\<open>iter\<close> lists the set without repetition). The observable events the call has
  added are then: one call of \<open>paletteChange\<close> per registered object, each with the
  palette dictionary as its argument and that dictionary holding the new palette when
  the call is made, and after them one \<open>paletteHasChangedSignal\<close>. Each registered
  object's call occurs exactly once. The new palette is the mapping of the dictionary
  handed to \<open>redefinePalette\<close> (when that is another object than the palette).
\<close>

theorem redefinePalette_notifies:
  assumes "redefinePalette iter color_dic_arg s = Returned s'"
    and "set (iter (registered_objects s)) = registered_objects s"
    and "distinct (iter (registered_objects s))"
  shows "events s' = events s
           @ map (\<lambda>obj. PaletteChangeCall obj (Some (color_dic s')) (palette s'))
               (iter (registered_objects s))
           @ [PaletteHasChangedSignal]
       \<and> (\<forall>obj \<in> registered_objects s.
            count_list (drop (length (events s)) (events s'))
              (PaletteChangeCall obj (Some (color_dic s')) (palette s')) = 1)
       \<and> color_dic s' = color_dic s
       \<and> (\<exists>d. color_dic_arg = Some d \<and> (d \<noteq> color_dic s \<longrightarrow> palette s' = dicts s d))"
proof -
  from assms(1) obtain d s3 where
    arg: "color_dic_arg = Some d" and
    n: "notify (iter (registered_objects s))
          (s\<lparr>dicts := (dicts s)(color_dic s := ((dicts s)(color_dic s := Map.empty)) d)\<rparr>) = Returned s3" and
    s': "s' = s3\<lparr>events := events s3 @ [PaletteHasChangedSignal]\<rparr>"
    by (auto elim: redefinePalette_Returned)
  let ?s2 = "s\<lparr>dicts := (dicts s)(color_dic s := ((dicts s)(color_dic s := Map.empty)) d)\<rparr>"
  let ?call = "\<lambda>obj. PaletteChangeCall obj (Some (color_dic s')) (palette s')"
  from notify_frame [OF n] s'
  have cd: "color_dic s' = color_dic s" and pal: "palette s' = palette ?s2"
    and ev: "events s' = events s @ map ?call (iter (registered_objects s)) @ [PaletteHasChangedSignal]"
    by (simp_all add: palette_def)
  from ev have new: "drop (length (events s)) (events s')
      = map ?call (iter (registered_objects s)) @ [PaletteHasChangedSignal]"
    by simp
  have once: "\<forall>obj \<in> registered_objects s.
      count_list (drop (length (events s)) (events s')) (?call obj) = 1"
  proof
    fix obj assume "obj \<in> registered_objects s"
    with assms(2) have "obj \<in> set (iter (registered_objects s))" by simp
    with assms(3) show "count_list (drop (length (events s)) (events s')) (?call obj) = 1"
      by (simp add: new count_calls count_list_distinct)
  qed
  from pal have "d \<noteq> color_dic s \<longrightarrow> palette s' = dicts s d"
    by (simp add: palette_def)
  with arg ev once cd show ?thesis by blast
qed

text \<open>Concrete states with one and with two registered pens.\<close>

lemma default_b: "map_of DEFAULT_COLORS ''b'' = Some 0"
  by (simp add: DEFAULT_COLORS_def)

lemma default_r: "map_of DEFAULT_COLORS ''r'' = Some 2"
  by (simp add: DEFAULT_COLORS_def)

lemma default_purple: "map_of DEFAULT_COLORS ''purple'' = None"
  by (simp add: DEFAULT_COLORS_def)

lemma loaded_qcolors:
  "qcolors loaded 0 = QColor 0 0 255 255" "qcolors loaded 2 = QColor 255 0 0 255"
  "qcolors loaded 3 = QColor 0 255 255 255" "qcolors loaded 8 = QColor 150 150 150 255"
  by (simp_all add: loaded_def NamedColorManager_init_def DEFAULT_QCOLORS_def)

lemma loaded_b: "dicts loaded 0 ''b'' = Some 0"
  by (simp add: loaded_simps DEFAULT_COLORS_def)

lemma c_int_small: "c_int 1" "c_int 10" "c_int 20" "c_int 50" "\<not> c_int 2147483648"
  by (simp_all add: c_int_def)

lemmas pen_defs = NamedPen_init_def updateQColor_def apply_alpha_def QPen_setColor_def
  QPen_setWidth_def QColor_setAlpha_def register_def setColor_def setAlpha_def
  paletteChange_def colors_def Let_def

lemma one_pen_eq: "NamedPen_init 0 ''b'' 1 None loaded = Returned one_pen"
  unfolding one_pen_def
  by (rule Returned_state_of) (simp add: pen_defs c_int_small loaded_simps default_b)

lemma one_pen_simps:
  "color_dic one_pen = 0" "dicts one_pen = dicts loaded" "qcolors one_pen = qcolors loaded"
  "pens one_pen 0 = \<lparr>pen_identifier = (''b'', None), pen_width = 1, cosmetic = True,
                      pen_color = QColor 0 0 255 255\<rparr>"
  "registered_objects one_pen = {0}" "events one_pen = []"
  by (simp_all add: one_pen_def pen_defs c_int_small loaded_simps default_b loaded_qcolors)

lemma two_pens_eq: "NamedPen_init 1 ''b'' 1 (Some 50) one_pen = Returned two_pens"
  unfolding two_pens_def
  by (rule Returned_state_of)
     (simp add: pen_defs c_int_small one_pen_simps loaded_simps default_b)

lemma two_pens_simps:
  "color_dic two_pens = 0" "dicts two_pens = dicts loaded"
  "qcolors two_pens 0 = QColor 0 0 255 50"
  "qcolors two_pens 8 = QColor 150 150 150 255"
  "pens two_pens 0 = \<lparr>pen_identifier = (''b'', None), pen_width = 1, cosmetic = True,
                       pen_color = QColor 0 0 255 255\<rparr>"
  "pens two_pens (Suc 0) = \<lparr>pen_identifier = (''b'', Some 50), pen_width = 1, cosmetic = True,
                       pen_color = QColor 0 0 255 50\<rparr>"
  "registered_objects two_pens = {0, Suc 0}" "events two_pens = []"
  by (auto simp: two_pens_def pen_defs c_int_small one_pen_simps loaded_simps default_b
        loaded_qcolors QColor_def)

lemma two_pens_gray_simps:
  "color_dic two_pens_gray = 0" "dicts two_pens_gray (Suc 0) = all_gray"
  "registered_objects two_pens_gray = {0, Suc 0}" "events two_pens_gray = []"
  "pen_identifier (pens two_pens_gray 0) = (''b'', None)"
  "pen_identifier (pens two_pens_gray (Suc 0)) = (''b'', Some 50)"
  by (simp_all add: two_pens_gray_def two_pens_simps)

lemma all_gray_b: "all_gray ''b'' = Some 8"
  by (simp add: all_gray_def DEFAULT_KEYS_def DEFAULT_COLORS_def)

text \<open>
  Two registered pens, visited in descending order of address, and an all-gray
  dictionary at address 1: two callbacks, each with the palette (address 0) holding the
  all-gray mapping, then the signal.
\<close>

theorem redefinePalette_notifies_witness:
  "registered_objects two_pens_gray = {0, 1}
   \<and> descending (registered_objects two_pens_gray) = [1, 0]
   \<and> events two_pens_gray = []
   \<and> dicts two_pens_gray 1 = all_gray
   \<and> is_Returned (redefinePalette descending (Some 1) two_pens_gray)
   \<and> events (state_of (redefinePalette descending (Some 1) two_pens_gray))
       = [PaletteChangeCall 1 (Some 0) all_gray, PaletteChangeCall 0 (Some 0) all_gray,
          PaletteHasChangedSignal]
   \<and> palette (state_of (redefinePalette descending (Some 1) two_pens_gray)) = all_gray"
proof -
  have r: "is_Returned (redefinePalette descending (Some 1) two_pens_gray)"
    by (simp add: redefinePalette_def pen_defs c_int_small two_pens_gray_simps
          descending_simps all_gray_keys all_gray_b)
  have i: "set (descending (registered_objects two_pens_gray)) = registered_objects two_pens_gray"
    and d: "distinct (descending (registered_objects two_pens_gray))"
    by (auto simp: two_pens_gray_simps descending_simps)
  from redefinePalette_notifies [OF Returned_state_of [OF r] i d] r
  show ?thesis by (auto simp: two_pens_gray_simps descending_simps)
qed

subsection \<open>Unknown color names\<close>

text \<open>
  C2, as it holds. For a name that is not a key of the palette, \<open>NamedPen(name, ...)\<close>
  and \<open>setColor(name, ...)\<close> raise: the dictionary's \<open>KeyError\<close>, which the handler for
  \<open>ValueError\<close> lets through (or, in \<open>__init__\<close>, the \<open>OverflowError\<close> of a width that
  no C \<open>int\<close> holds). \<open>paletteChange\<close> raises \<open>KeyError\<close> when the pen's name is not a
  key of the dictionary it resolves against: its argument, or the palette when the argument
  is \<open>None\<close>. In each case no color is substituted: no \<open>QColor\<close> object is changed, the
  pen's stored color is what it was, and a pen whose \<open>__init__\<close> fails is not registered.
\<close>

theorem unknown_color_name_fails:
  "(palette s name = None \<longrightarrow>
      (\<exists>s'. NamedPen_init self name width alpha s
               = Raised (if c_int width then KeyError name else OverflowError) s'
            \<and> registered_objects s' = registered_objects s \<and> qcolors s' = qcolors s)
    \<and> (\<exists>s'. setColor self (AName name) alpha s = Raised (KeyError name) s'
            \<and> pen_color (pens s' self) = pen_color (pens s self) \<and> qcolors s' = qcolors s))
   \<and> (dicts s (case color_dict of None \<Rightarrow> color_dic s | Some d \<Rightarrow> d)
         (fst (pen_identifier (pens s self))) = None \<longrightarrow>
      (\<exists>s'. paletteChange self color_dict s
               = Raised (KeyError (fst (pen_identifier (pens s self)))) s'
            \<and> pen_color (pens s' self) = pen_color (pens s self) \<and> qcolors s' = qcolors s))"
  by (auto simp: palette_def NamedPen_init_def setColor_def paletteChange_def updateQColor_def
        QPen_setWidth_def colors_def Let_def split: option.splits)

lemma purple_pen_simps:
  "color_dic purple_pen = 0" "dicts purple_pen = dicts loaded"
  "qcolors purple_pen = qcolors loaded"
  "pen_identifier (pens purple_pen 0) = (''purple'', None)"
  "pen_color (pens purple_pen 0) = QColor 0 0 255 255"
  by (simp_all add: purple_pen_def pen_defs one_pen_simps loaded_simps default_purple)

lemma foreign_simps:
  "color_dic foreign = 0" "dicts foreign 0 = map_of DEFAULT_COLORS"
  "dicts foreign (Suc 0) = [''purple'' \<mapsto> 3]"
  "qcolors foreign = qcolors loaded"
  "pen_identifier (pens foreign 0) = (''purple'', None)"
  "pen_color (pens foreign 0) = QColor 0 0 255 255"
  by (simp_all add: foreign_def purple_pen_simps loaded_simps)

text \<open>A pen that was given the name \<open>purple\<close>: \<open>__init__\<close>, \<open>setColor\<close> and
  \<open>paletteChange\<close> against the palette raise.\<close>

theorem unknown_color_name_fails_witness:
  "palette purple_pen ''purple'' = None
   \<and> fst (pen_identifier (pens purple_pen 0)) = ''purple''
   \<and> (\<exists>s'. NamedPen_init 0 ''purple'' 1 None purple_pen = Raised (KeyError ''purple'') s')
   \<and> (\<exists>s'. setColor 0 (AName ''purple'') None purple_pen = Raised (KeyError ''purple'') s')
   \<and> (\<exists>s'. paletteChange 0 None purple_pen = Raised (KeyError ''purple'') s'
          \<and> pen_color (pens s' 0) = QColor 0 0 255 255)
   \<and> (\<exists>s'. paletteChange 0 (Some 0) purple_pen = Raised (KeyError ''purple'') s'
          \<and> pen_color (pens s' 0) = QColor 0 0 255 255)"
proof -
  have h: "palette purple_pen ''purple'' = None"
    by (simp add: palette_def purple_pen_simps loaded_simps default_purple)
  have n: "fst (pen_identifier (pens purple_pen 0)) = ''purple''"
    by (simp add: purple_pen_simps)
  have k: "dicts purple_pen (case None of None \<Rightarrow> color_dic purple_pen | Some d \<Rightarrow> d)
             (fst (pen_identifier (pens purple_pen 0))) = None"
      "dicts purple_pen (case Some 0 of None \<Rightarrow> color_dic purple_pen | Some d \<Rightarrow> d)
             (fst (pen_identifier (pens purple_pen 0))) = None"
    by (simp_all add: purple_pen_simps loaded_simps default_purple)
  note t1 = unknown_color_name_fails [of purple_pen "''purple''" 0 1 None None]
  note t2 = unknown_color_name_fails [of purple_pen "''purple''" 0 1 None "Some 0"]
  from t1 h have a: "\<exists>s'. NamedPen_init 0 ''purple'' 1 None purple_pen = Raised (KeyError ''purple'') s'"
    and b: "\<exists>s'. setColor 0 (AName ''purple'') None purple_pen = Raised (KeyError ''purple'') s'"
    by (auto simp: c_int_small)
  from t1 k(1) have c: "\<exists>s'. paletteChange 0 None purple_pen = Raised (KeyError ''purple'') s'
          \<and> pen_color (pens s' 0) = QColor 0 0 255 255"
    by (auto simp: purple_pen_simps)
  from t2 k(2) have d: "\<exists>s'. paletteChange 0 (Some 0) purple_pen = Raised (KeyError ''purple'') s'
          \<and> pen_color (pens s' 0) = QColor 0 0 255 255"
    by (auto simp: purple_pen_simps)
  from h n a b c d show ?thesis by blast
qed

text \<open>
  C2 as stated fails for \<open>paletteChange\<close>: the pen's name \<open>purple\<close> is not a key of the
  palette, yet \<open>paletteChange\<close> with a dictionary that has the name returns, and the pen
  takes that dictionary's color (cyan).
\<close>

theorem paletteChange_foreign_dictionary_counterexample:
  "palette foreign ''purple'' = None
   \<and> fst (pen_identifier (pens foreign 0)) = ''purple''
   \<and> is_Returned (paletteChange 0 (Some 1) foreign)
   \<and> pen_color (pens foreign 0) = QColor 0 0 255 255
   \<and> pen_color (pens (state_of (paletteChange 0 (Some 1) foreign)) 0) = QColor 0 255 255 255"
  by (simp add: palette_def foreign_simps default_purple pen_defs loaded_qcolors)

subsection \<open>When a pen resolves its name\<close>

text \<open>
  C5, as it holds. A pen stores a color of its own besides the pair (name, alpha). The
  name is resolved when it is assigned: when \<open>__init__\<close>, \<open>setColor\<close> (with a name, a
  \<open>QColor\<close> or \<open>None\<close>), \<open>setAlpha\<close> or \<open>paletteChange\<close> (with any argument) returns,
  the pen's identifier is as the operation sets it, and the pen's stored color is a copy
  of the color found under the name in the dictionary the operation resolves against (the
  palette; for \<open>paletteChange\<close> its argument, the palette when that is \<open>None\<close>), with
  the pen's alpha applied. The stored colors of all other pens are left as they were.
\<close>

theorem NamedPen_resolves_on_assignment:
  "(NamedPen_init self name width alpha s = Returned s' \<longrightarrow>
      pen_identifier (pens s' self) = (name, alpha)
      \<and> stored_resolution s (color_dic s) s' self
      \<and> (\<forall>other. other \<noteq> self \<longrightarrow> pen_color (pens s' other) = pen_color (pens s other)))
   \<and> (setColor self arg alpha s = Returned s' \<longrightarrow>
      pen_identifier (pens s' self)
        = (case arg of
             NoName \<Rightarrow> (fst (pen_identifier (pens s self)), alpha)
           | AQColor q \<Rightarrow>
               (fst (pen_identifier (pens s self)),
                (case alpha of None \<Rightarrow> Some (alpha_channel (qcolors s q)) | Some a \<Rightarrow> Some a))
           | AName n \<Rightarrow> (n, alpha))
      \<and> stored_resolution s (color_dic s) s' self
      \<and> (\<forall>other. other \<noteq> self \<longrightarrow> pen_color (pens s' other) = pen_color (pens s other)))
   \<and> (setAlpha self alpha s = Returned s' \<longrightarrow>
      pen_identifier (pens s' self) = (fst (pen_identifier (pens s self)), alpha)
      \<and> stored_resolution s (color_dic s) s' self
      \<and> (\<forall>other. other \<noteq> self \<longrightarrow> pen_color (pens s' other) = pen_color (pens s other)))
   \<and> (paletteChange self color_dict s = Returned s' \<longrightarrow>
      pen_identifier (pens s' self) = pen_identifier (pens s self)
      \<and> stored_resolution s (case color_dict of None \<Rightarrow> color_dic s | Some d \<Rightarrow> d) s' self
      \<and> (\<forall>other. other \<noteq> self \<longrightarrow> pen_color (pens s' other) = pen_color (pens s other)))"
proof (intro conjI impI)
  assume r: "NamedPen_init self name width alpha s = Returned s'"
  then show "pen_identifier (pens s' self) = (name, alpha)"
    and "stored_resolution s (color_dic s) s' self"
    and "\<forall>other. other \<noteq> self \<longrightarrow> pen_color (pens s' other) = pen_color (pens s other)"
    by (auto simp: NamedPen_init_def updateQColor_def apply_alpha_def QPen_setColor_def
          QColor_setAlpha_def QPen_setWidth_def register_def stored_resolution_def Let_def
          split: option.splits sum.splits if_splits)
next
  assume r: "setColor self arg alpha s = Returned s'"
  then show "pen_identifier (pens s' self)
        = (case arg of
             NoName \<Rightarrow> (fst (pen_identifier (pens s self)), alpha)
           | AQColor q \<Rightarrow>
               (fst (pen_identifier (pens s self)),
                (case alpha of None \<Rightarrow> Some (alpha_channel (qcolors s q)) | Some a \<Rightarrow> Some a))
           | AName n \<Rightarrow> (n, alpha))"
    and "stored_resolution s (color_dic s) s' self"
    and "\<forall>other. other \<noteq> self \<longrightarrow> pen_color (pens s' other) = pen_color (pens s other)"
    by (auto simp: setColor_def updateQColor_def apply_alpha_def QPen_setColor_def
          QColor_setAlpha_def stored_resolution_def Let_def
          split: option.splits sum.splits if_splits color_arg.splits)
next
  assume r: "setAlpha self alpha s = Returned s'"
  then show "pen_identifier (pens s' self) = (fst (pen_identifier (pens s self)), alpha)"
    and "stored_resolution s (color_dic s) s' self"
    and "\<forall>other. other \<noteq> self \<longrightarrow> pen_color (pens s' other) = pen_color (pens s other)"
    by (auto simp: setAlpha_def updateQColor_def apply_alpha_def QPen_setColor_def
          QColor_setAlpha_def stored_resolution_def Let_def
          split: option.splits sum.splits if_splits)
next
  assume r: "paletteChange self color_dict s = Returned s'"
  then show "pen_identifier (pens s' self) = pen_identifier (pens s self)"
    and "stored_resolution s (case color_dict of None \<Rightarrow> color_dic s | Some d \<Rightarrow> d) s' self"
    and "\<forall>other. other \<noteq> self \<longrightarrow> pen_color (pens s' other) = pen_color (pens s other)"
    by (auto simp: paletteChange_def colors_def apply_alpha_def QPen_setColor_def
          QColor_setAlpha_def stored_resolution_def Let_def
          split: option.splits sum.splits if_splits)
qed


text \<open>Each of the four operations on the first pen: the stored color is the palette's
  blue, its red with alpha 10, its blue with alpha 20, and its blue again.\<close>

theorem NamedPen_resolves_on_assignment_witness:
  "NamedPen_init 0 ''b'' 1 None loaded = Returned one_pen
   \<and> pen_identifier (pens one_pen 0) = (''b'', None)
   \<and> stored_resolution loaded 0 one_pen 0
   \<and> pen_color (pens one_pen 0) = QColor 0 0 255 255
   \<and> is_Returned (setColor 0 (AName ''r'') (Some 10) one_pen)
   \<and> pen_identifier (pens (state_of (setColor 0 (AName ''r'') (Some 10) one_pen)) 0) = (''r'', Some 10)
   \<and> stored_resolution one_pen 0 (state_of (setColor 0 (AName ''r'') (Some 10) one_pen)) 0
   \<and> pen_color (pens (state_of (setColor 0 (AName ''r'') (Some 10) one_pen)) 0) = QColor 255 0 0 10
   \<and> is_Returned (setAlpha 0 (Some 20) one_pen)
   \<and> pen_identifier (pens (state_of (setAlpha 0 (Some 20) one_pen)) 0) = (''b'', Some 20)
   \<and> stored_resolution one_pen 0 (state_of (setAlpha 0 (Some 20) one_pen)) 0
   \<and> pen_color (pens (state_of (setAlpha 0 (Some 20) one_pen)) 0) = QColor 0 0 255 20
   \<and> is_Returned (paletteChange 0 (Some 0) one_pen)
   \<and> stored_resolution one_pen 0 (state_of (paletteChange 0 (Some 0) one_pen)) 0
   \<and> pen_color (pens (state_of (paletteChange 0 (Some 0) one_pen)) 0) = QColor 0 0 255 255"
proof -
  note init = NamedPen_resolves_on_assignment [of 0 "''b''" 1 None loaded one_pen]
  have r2: "is_Returned (setColor 0 (AName ''r'') (Some 10) one_pen)"
    by (simp add: pen_defs c_int_small one_pen_simps loaded_simps default_r)
  note sc = NamedPen_resolves_on_assignment
    [of 0 _ _ "Some 10" one_pen "state_of (setColor 0 (AName ''r'') (Some 10) one_pen)" "AName ''r''"]
  have r3: "is_Returned (setAlpha 0 (Some 20) one_pen)"
    by (simp add: pen_defs c_int_small one_pen_simps loaded_simps default_b)
  note sa = NamedPen_resolves_on_assignment
    [of 0 _ _ "Some 20" one_pen "state_of (setAlpha 0 (Some 20) one_pen)"]
  have r4: "is_Returned (paletteChange 0 (Some 0) one_pen)"
    by (simp add: pen_defs one_pen_simps loaded_simps default_b)
  note pc = NamedPen_resolves_on_assignment
    [of 0 _ _ _ one_pen "state_of (paletteChange 0 (Some 0) one_pen)" _ "Some 0"]
  from init one_pen_eq
  have a: "pen_identifier (pens one_pen 0) = (''b'', None)"
    "stored_resolution loaded 0 one_pen 0"
    by (simp_all add: loaded_simps)
  from sc Returned_state_of [OF r2]
  have b: "pen_identifier (pens (state_of (setColor 0 (AName ''r'') (Some 10) one_pen)) 0) = (''r'', Some 10)"
    "stored_resolution one_pen 0 (state_of (setColor 0 (AName ''r'') (Some 10) one_pen)) 0"
    by (simp_all add: one_pen_simps)
  from sa Returned_state_of [OF r3]
  have c: "pen_identifier (pens (state_of (setAlpha 0 (Some 20) one_pen)) 0) = (''b'', Some 20)"
    "stored_resolution one_pen 0 (state_of (setAlpha 0 (Some 20) one_pen)) 0"
    by (simp_all add: one_pen_simps)
  from pc Returned_state_of [OF r4]
  have d: "pen_identifier (pens (state_of (paletteChange 0 (Some 0) one_pen)) 0) = (''b'', None)"
    "stored_resolution one_pen 0 (state_of (paletteChange 0 (Some 0) one_pen)) 0"
    by (simp_all add: one_pen_simps)
  have v: "pen_color (pens one_pen 0) = QColor 0 0 255 255"
    by (simp add: one_pen_simps)
  from b have vb: "pen_color (pens (state_of (setColor 0 (AName ''r'') (Some 10) one_pen)) 0) = QColor 255 0 0 10"
    by (simp add: stored_resolution_def one_pen_simps loaded_simps default_r loaded_qcolors QColor_def)
  from c have vc: "pen_color (pens (state_of (setAlpha 0 (Some 20) one_pen)) 0) = QColor 0 0 255 20"
    by (simp add: stored_resolution_def one_pen_simps loaded_simps default_b loaded_qcolors QColor_def)
  from d have vd: "pen_color (pens (state_of (paletteChange 0 (Some 0) one_pen)) 0) = QColor 0 0 255 255"
    by (simp add: stored_resolution_def one_pen_simps loaded_simps default_b loaded_qcolors QColor_def)
  from one_pen_eq a b c d v vb vc vd r2 r3 r4 show ?thesis by simp
qed

text \<open>
  C5 as stated fails: the color read from a pen is the stored one, not a lookup. After
  \<open>NamedPen('b')\<close> and then \<open>NamedPen('b', alpha=50)\<close>, the palette resolves \<open>b\<close> to
  blue with alpha 50, while the first pen still holds blue with alpha 255.
\<close>

theorem NamedPen_cached_color_counterexample:
  "NamedPen_init 0 ''b'' 1 None loaded = Returned one_pen
   \<and> NamedPen_init 1 ''b'' 1 (Some 50) one_pen = Returned two_pens
   \<and> pen_identifier (pens two_pens 0) = (''b'', None)
   \<and> lazy_color two_pens 0 = Some (QColor 0 0 255 50)
   \<and> pen_color (pens two_pens 0) = QColor 0 0 255 255"
  using one_pen_eq two_pens_eq
  by (simp add: lazy_color_def palette_def two_pens_simps loaded_b)

subsection \<open>Opacity and the shared palette\<close>

text \<open>
  C10, as it holds. Take a pen whose alpha \<open>a\<close> is not \<open>None\<close>.
  If \<open>a\<close> is in the range of a C \<open>int\<close>: \<open>_updateQColor\<close> returns, the palette still
  maps the pen's name to the same object \<open>q\<close>, and \<open>q\<close> itself has been given the alpha
  (bounded to 0..255); \<open>paletteChange\<close> does the same to the object that the dictionary
  it resolves against (its argument, the palette when that is \<open>None\<close>) holds under the
  name, and changes no other \<open>QColor\<close>. Every other pen on the same name with no alpha
  of its own that resolves afterwards against that dictionary stores the color with
  that alpha.
  If \<open>a\<close> is outside that range, \<open>setAlpha\<close> raises \<open>OverflowError\<close> and no
  \<open>QColor\<close> is changed.
\<close>

theorem alpha_written_to_palette_object:
  assumes "pen_identifier (pens s self) = (name, Some a)"
  shows "(c_int a \<and> palette s name = Some q \<longrightarrow>
          (\<exists>s'. updateQColor self (pen_identifier (pens s self)) cd s = Returned s'
              \<and> palette s' name = Some q
              \<and> qcolors s' = (qcolors s)(q := (qcolors s q)\<lparr>alpha_channel := max 0 (min a 255)\<rparr>)
              \<and> (\<forall>other. pen_identifier (pens s other) = (name, None) \<longrightarrow>
                   (\<exists>s''. updateQColor other (pen_identifier (pens s' other)) cd' s' = Returned s''
                       \<and> pen_color (pens s'' other)
                           = (qcolors s q)\<lparr>alpha_channel := max 0 (min a 255)\<rparr>))))
       \<and> (c_int a \<and> dicts s (case color_dict of None \<Rightarrow> color_dic s | Some d \<Rightarrow> d) name = Some q \<longrightarrow>
          (\<exists>s'. paletteChange self color_dict s = Returned s'
              \<and> dicts s' = dicts s
              \<and> qcolors s' = (qcolors s)(q := (qcolors s q)\<lparr>alpha_channel := max 0 (min a 255)\<rparr>)
              \<and> (\<forall>other. pen_identifier (pens s other) = (name, None) \<longrightarrow>
                   (\<exists>s''. paletteChange other color_dict s' = Returned s''
                       \<and> pen_color (pens s'' other)
                           = (qcolors s q)\<lparr>alpha_channel := max 0 (min a 255)\<rparr>))))
       \<and> (\<not> c_int a \<and> palette s name = Some q \<longrightarrow>
          (\<exists>s'. updateQColor self (pen_identifier (pens s self)) cd s = Raised OverflowError s'
              \<and> qcolors s' = qcolors s))
       \<and> (\<not> c_int a \<and> dicts s (case color_dict of None \<Rightarrow> color_dic s | Some d \<Rightarrow> d) name = Some q \<longrightarrow>
          (\<exists>s'. paletteChange self color_dict s = Raised OverflowError s'
              \<and> qcolors s' = qcolors s))"
proof (intro conjI impI)
  assume "c_int a \<and> palette s name = Some q"
  with assms
  show "\<exists>s'. updateQColor self (pen_identifier (pens s self)) cd s = Returned s'
              \<and> palette s' name = Some q
              \<and> qcolors s' = (qcolors s)(q := (qcolors s q)\<lparr>alpha_channel := max 0 (min a 255)\<rparr>)
              \<and> (\<forall>other. pen_identifier (pens s other) = (name, None) \<longrightarrow>
                   (\<exists>s''. updateQColor other (pen_identifier (pens s' other)) cd' s' = Returned s''
                       \<and> pen_color (pens s'' other)
                           = (qcolors s q)\<lparr>alpha_channel := max 0 (min a 255)\<rparr>))"
    by (auto simp: updateQColor_def apply_alpha_def QPen_setColor_def QColor_setAlpha_def
          palette_def Let_def)
next
  assume "c_int a \<and> dicts s (case color_dict of None \<Rightarrow> color_dic s | Some d \<Rightarrow> d) name = Some q"
  with assms
  show "\<exists>s'. paletteChange self color_dict s = Returned s'
              \<and> dicts s' = dicts s
              \<and> qcolors s' = (qcolors s)(q := (qcolors s q)\<lparr>alpha_channel := max 0 (min a 255)\<rparr>)
              \<and> (\<forall>other. pen_identifier (pens s other) = (name, None) \<longrightarrow>
                   (\<exists>s''. paletteChange other color_dict s' = Returned s''
                       \<and> pen_color (pens s'' other)
                           = (qcolors s q)\<lparr>alpha_channel := max 0 (min a 255)\<rparr>))"
    by (auto simp: paletteChange_def colors_def apply_alpha_def QPen_setColor_def
          QColor_setAlpha_def Let_def split: option.splits)
next
  assume "\<not> c_int a \<and> palette s name = Some q"
  with assms
  show "\<exists>s'. updateQColor self (pen_identifier (pens s self)) cd s = Raised OverflowError s'
              \<and> qcolors s' = qcolors s"
    by (auto simp: updateQColor_def apply_alpha_def QColor_setAlpha_def palette_def Let_def)
next
  assume "\<not> c_int a \<and> dicts s (case color_dict of None \<Rightarrow> color_dic s | Some d \<Rightarrow> d) name = Some q"
  with assms
  show "\<exists>s'. paletteChange self color_dict s = Raised OverflowError s'
              \<and> qcolors s' = qcolors s"
    by (auto simp: paletteChange_def colors_def apply_alpha_def QColor_setAlpha_def Let_def
          split: option.splits)
qed

lemma second_pen_created_simps:
  "pen_identifier (pens second_pen_created (Suc 0)) = (''b'', Some 50)"
  "pen_identifier (pens second_pen_created 0) = (''b'', None)"
  "palette second_pen_created ''b'' = Some 0"
  "dicts second_pen_created 0 ''b'' = Some 0"
  "qcolors second_pen_created = qcolors loaded"
  "color_dic second_pen_created = 0"
  by (simp_all add: second_pen_created_def palette_def one_pen_simps loaded_simps default_b)

lemma second_pen_gray_simps:
  "pen_identifier (pens second_pen_gray (Suc 0)) = (''b'', Some 50)"
  "palette second_pen_gray ''b'' = Some 0"
  "dicts second_pen_gray (Suc 0) = all_gray"
  "qcolors second_pen_gray = qcolors loaded"
  "color_dic second_pen_gray = 0"
  by (simp_all add: second_pen_gray_def palette_def second_pen_created_simps)

lemma overflowing_simps:
  "pen_identifier (pens overflowing 0) = (''b'', Some 2147483648)"
  "palette overflowing ''b'' = Some 0"
  "dicts overflowing = dicts loaded"
  "qcolors overflowing = qcolors loaded"
  "color_dic overflowing = 0"
  by (simp_all add: overflowing_def palette_def pen_defs c_int_small one_pen_simps
        loaded_simps default_b)

text \<open>The second pen's opacity 50 ends up in the palette's blue, and in the first pen
  once it resolves again; an opacity of 2147483648 raises and leaves the blue as it is.\<close>

theorem alpha_written_to_palette_object_witness:
  "pen_identifier (pens second_pen_created 1) = (''b'', Some 50)
   \<and> pen_identifier (pens second_pen_created 0) = (''b'', None)
   \<and> palette second_pen_created ''b'' = Some 0
   \<and> qcolors second_pen_created 0 = QColor 0 0 255 255
   \<and> (\<exists>s'. updateQColor 1 (''b'', Some 50) None second_pen_created = Returned s'
          \<and> palette s' ''b'' = Some 0
          \<and> qcolors s' 0 = QColor 0 0 255 50
          \<and> (\<exists>s''. updateQColor 0 (pen_identifier (pens s' 0)) None s' = Returned s''
                 \<and> pen_color (pens s'' 0) = QColor 0 0 255 50))
   \<and> (\<exists>s'. paletteChange 1 (Some 0) second_pen_created = Returned s'
          \<and> qcolors s' 0 = QColor 0 0 255 50
          \<and> (\<exists>s''. paletteChange 0 (Some 0) s' = Returned s''
                 \<and> pen_color (pens s'' 0) = QColor 0 0 255 50))
   \<and> pen_identifier (pens overflowing 0) = (''b'', Some 2147483648)
   \<and> (\<exists>s'. updateQColor 0 (''b'', Some 2147483648) None overflowing = Raised OverflowError s'
          \<and> qcolors s' 0 = QColor 0 0 255 255)
   \<and> (\<exists>s'. paletteChange 0 None overflowing = Raised OverflowError s'
          \<and> qcolors s' 0 = QColor 0 0 255 255)"
proof -
  have h1: "pen_identifier (pens second_pen_created 1) = (''b'', Some 50)"
    and h2: "palette second_pen_created ''b'' = Some 0"
    and h3: "dicts second_pen_created (case Some 0 of None \<Rightarrow> color_dic second_pen_created | Some d \<Rightarrow> d) ''b'' = Some 0"
    and o: "pen_identifier (pens second_pen_created 0) = (''b'', None)"
    and c: "qcolors second_pen_created 0 = QColor 0 0 255 255"
    by (simp_all add: second_pen_created_simps loaded_qcolors)
  have v: "(QColor 0 0 255 255)\<lparr>alpha_channel := max 0 (min 50 255)\<rparr> = QColor 0 0 255 50"
    by (simp add: QColor_def)
  note t = alpha_written_to_palette_object [OF h1, of 0 None None "Some 0"]
  from t h2 have
    t1: "\<exists>s'. updateQColor 1 (''b'', Some 50) None second_pen_created = Returned s'
          \<and> palette s' ''b'' = Some 0
          \<and> qcolors s' 0 = QColor 0 0 255 50
          \<and> (\<exists>s''. updateQColor 0 (pen_identifier (pens s' 0)) None s' = Returned s''
                 \<and> pen_color (pens s'' 0) = QColor 0 0 255 50)"
    using h1 o c v by (elim conjE) (auto simp: c_int_small)
  from t h3 have
    t2: "\<exists>s'. paletteChange 1 (Some 0) second_pen_created = Returned s'
          \<and> qcolors s' 0 = QColor 0 0 255 50
          \<and> (\<exists>s''. paletteChange 0 (Some 0) s' = Returned s''
                 \<and> pen_color (pens s'' 0) = QColor 0 0 255 50)"
    using h1 o c v by (elim conjE) (auto simp: c_int_small)
  have g1: "pen_identifier (pens overflowing 0) = (''b'', Some 2147483648)"
    and g2: "palette overflowing ''b'' = Some 0"
    and g3: "dicts overflowing (case None of None \<Rightarrow> color_dic overflowing | Some d \<Rightarrow> d) ''b'' = Some 0"
    and gc: "qcolors overflowing 0 = QColor 0 0 255 255"
    by (simp_all add: overflowing_simps loaded_simps default_b loaded_qcolors)
  note u = alpha_written_to_palette_object [OF g1, of 0 None None None]
  from u g2 have
    u1: "\<exists>s'. updateQColor 0 (''b'', Some 2147483648) None overflowing = Raised OverflowError s'
          \<and> qcolors s' 0 = QColor 0 0 255 255"
    using g1 gc by (elim conjE) (auto simp: c_int_small)
  from u g3 have
    u2: "\<exists>s'. paletteChange 0 None overflowing = Raised OverflowError s'
          \<and> qcolors s' 0 = QColor 0 0 255 255"
    using g1 gc by (elim conjE) (auto simp: c_int_small)
  from h1 o h2 c t1 t2 g1 u1 u2 show ?thesis by blast
qed

text \<open>
  C10 as stated fails in two ways. A pen whose alpha is 2147483648 (set by
  \<open>setAlpha\<close>, which raised after storing it): \<open>_updateQColor\<close> raises and the palette's
  blue keeps its alpha 255. A pen with alpha 50 whose \<open>paletteChange\<close> is given another
  dictionary: the alpha goes to that dictionary's object (the gray at address 8), and the
  palette's entry for the pen's name keeps its alpha 255.
\<close>

theorem alpha_not_on_palette_counterexample:
  "pen_identifier (pens overflowing 0) = (''b'', Some 2147483648)
   \<and> palette overflowing ''b'' = Some 0
   \<and> alpha_channel (qcolors overflowing 0) = 255
   \<and> updateQColor 0 (pen_identifier (pens overflowing 0)) None overflowing
       = Raised OverflowError overflowing
   \<and> pen_identifier (pens second_pen_gray 1) = (''b'', Some 50)
   \<and> palette second_pen_gray ''b'' = Some 0
   \<and> alpha_channel (qcolors second_pen_gray 0) = 255
   \<and> is_Returned (paletteChange 1 (Some 1) second_pen_gray)
   \<and> alpha_channel (qcolors (state_of (paletteChange 1 (Some 1) second_pen_gray)) 0) = 255
   \<and> alpha_channel (qcolors (state_of (paletteChange 1 (Some 1) second_pen_gray)) 8) = 50"
  by (simp add: overflowing_simps second_pen_gray_simps loaded_simps default_b loaded_qcolors
        all_gray_b pen_defs c_int_small QColor_def)

subsection \<open>Malformed positions and offsets\<close>

lemma newPos_other: "\<not> position_like pos \<Longrightarrow> newPos pos = Inl (TypeError [])"
  by (cases pos) simp_all

lemma offset_args_other:
  "\<not> position_like offset \<Longrightarrow>
     offset_args offset = Inl (TypeError ''Offset parameter is the wrong data type'')"
  by (cases offset) simp_all

text \<open>
  C7. A \<open>pos\<close> that is neither a tuple, a list, a \<open>QPointF\<close> nor a \<open>QPoint\<close> makes
  \<open>TargetItem.setPos\<close> raise \<open>TypeError\<close> and leaves the item as it was: the stored
  position is unchanged and no signal is emitted. An \<open>offset\<close> of no such type makes
  \<open>TargetLabel.__init__\<close> raise \<open>TypeError\<close> ("Offset parameter is the wrong data
  type"), whatever the toolkit calls and the other arguments are.
\<close>

theorem malformed_position_rejected:
  "(\<not> position_like pos \<longrightarrow>
      setPos Point pos self = Raised (TypeError []) self
      \<and> target_pos (state_of (setPos Point pos self)) = target_pos self
      \<and> emitted (state_of (setPos Point pos self)) = emitted self)
   \<and> (\<not> position_like offset \<longrightarrow>
      (\<exists>label'. TargetLabel_init item_setPos str_format call target target_position txt offset
                  anchor angle label
                = Raised (TypeError ''Offset parameter is the wrong data type'') label'))"
  by (simp add: setPos_def TargetLabel_init_def newPos_other offset_args_other)

text \<open>A string as position, a number as offset.\<close>

theorem malformed_position_rejected_witness:
  "\<not> position_like (PyStr ''here'') \<and> \<not> position_like (PyNum 3)
   \<and> setPos sample_Point (PyStr ''here'') origin_item = Raised (TypeError []) origin_item
   \<and> target_pos (state_of (setPos sample_Point (PyStr ''here'') origin_item)) = [PyNum 0, PyNum 0]
   \<and> emitted (state_of (setPos sample_Point (PyStr ''here'') origin_item)) = []
   \<and> (\<exists>label'. TargetLabel_init sample_Point sample_format sample_call 0 [PyNum 0, PyNum 0]
                  (PyStr ''x'') (PyNum 3) PyNone PyNone fresh_label
                = Raised (TypeError ''Offset parameter is the wrong data type'') label')"
proof -
  have a: "\<not> position_like (PyStr ''here'')" and b: "\<not> position_like (PyNum 3)"
    by simp_all
  have o: "target_pos origin_item = [PyNum 0, PyNum 0]" "emitted origin_item = []"
    by (simp_all add: origin_item_def)
  from malformed_position_rejected
         [of "PyStr ''here''" sample_Point origin_item "PyNum 3" sample_Point sample_format
             sample_call 0 "[PyNum 0, PyNum 0]" "PyStr ''x''" PyNone PyNone fresh_label] a b o
  show ?thesis by simp
qed

subsection \<open>The path button\<close>

text \<open>
  C8. The module binds \<open>QtCore\<close> and \<open>QtGui\<close> but not \<open>QtWidgets\<close>, so the \<open>class\<close>
  statement raises \<open>NameError\<close> and no \<open>PathButton\<close> can be constructed, whatever the
  arguments.
\<close>

theorem PathButton_cannot_be_constructed:
  "PathButton_class = Inl (NameError ''QtWidgets'')
   \<and> PathButton_init path pen brush sz mrg = Inl (NameError ''QtWidgets'')"
  by (simp add: PathButton_init_def PathButton_class_def load_global_def PathButton_globals_def)

text \<open>
  \<open>paintEvent\<close> on its own: a path whose bounding rectangle has positive width and
  height is drawn with the button's pen and brush, centered, at the largest scale that
  fits the face inside the margin; a bounding rectangle of zero width or height (a
  straight horizontal or vertical line) raises \<open>ZeroDivisionError\<close>.
\<close>

lemma paintEvent_fits:
  assumes "button_path self = Some rect" and "0 < rect_width rect" and "0 < rect_height rect"
  shows "\<exists>scale. paintEvent width height self =
           Inr [ SetRenderHint,
                 Translate (width / 2) (height / 2),
                 Scale scale scale,
                 Translate (- fst (center rect)) (- snd (center rect)),
                 SetPen (button_pen self), SetBrush (button_brush self), DrawPath rect,
                 EndPainter ]
         \<and> scale * rect_width rect \<le> width - 2 * margin self
         \<and> scale * rect_height rect \<le> height - 2 * margin self
         \<and> (scale * rect_width rect = width - 2 * margin self
              \<or> scale * rect_height rect = height - 2 * margin self)"
proof -
  let ?gw = "width - 2 * margin self" and ?gh = "height - 2 * margin self"
  let ?scale = "min (?gw / rect_width rect) (?gh / rect_height rect)"
  have p: "paintEvent width height self =
           Inr [ SetRenderHint,
                 Translate (width / 2) (height / 2),
                 Scale ?scale ?scale,
                 Translate (- fst (center rect)) (- snd (center rect)),
                 SetPen (button_pen self), SetBrush (button_brush self), DrawPath rect,
                 EndPainter ]"
    using assms by (simp add: paintEvent_def Let_def adjusted_def center_def field_simps)
  have w: "?scale * rect_width rect \<le> ?gw"
    using assms(2) by (simp add: min_def field_simps)
  have h: "?scale * rect_height rect \<le> ?gh"
    using assms(3) by (simp add: min_def field_simps)
  have e: "?scale * rect_width rect = ?gw \<or> ?scale * rect_height rect = ?gh"
    using assms(2,3) by (simp add: min_def field_simps)
  from p w h e show ?thesis by blast
qed

lemma paintEvent_degenerate:
  assumes "button_path self = Some rect" and "rect_width rect = 0 \<or> rect_height rect = 0"
  shows "paintEvent width height self = Inl ZeroDivisionError"
  using assms by (simp add: paintEvent_def Let_def)

end
